theory Spec2Isabelle
  imports Complex_Main
begin

section \<open>Python preliminaries\<close>

text \<open>
  The exceptions the modelled code can raise. \<open>theme.py\<close> defines no exception class of
  its own and has no \<open>raise\<close> statement: the only failures are those of the built-ins
  and of the toolkit's constructors it calls (a dictionary subscript, \<open>str.format\<close>,
  \<open>str.encode\<close>, \<open>int\<close> on a float, \<open>QSize\<close>).
\<close>

datatype exn =
    KeyError | IndexError | ValueError | AttributeError | TypeError
  | OverflowError | UnicodeEncodeError

text \<open>\<open>d.get(k, default)\<close> and \<open>d[k]\<close> on a dictionary \<open>d\<close>.\<close>

definition dict_get :: "('k \<rightharpoonup> 'v) \<Rightarrow> 'k \<Rightarrow> 'v \<Rightarrow> 'v" where
  "dict_get d k dflt = (case d k of Some v \<Rightarrow> v | None \<Rightarrow> dflt)"

definition subscript :: "('k \<rightharpoonup> 'v) \<Rightarrow> 'k \<Rightarrow> exn + 'v" where
  "subscript d k = (case d k of Some v \<Rightarrow> Inr v | None \<Rightarrow> Inl KeyError)"

text \<open>\<open>str(n)\<close> of an integer, as an f-string prints it.\<close>

fun str_nat :: "nat \<Rightarrow> string" where
  "str_nat n = (if n < 10 then [char_of (48 + n)]
                else str_nat (n div 10) @ [char_of (48 + n mod 10)])"

declare str_nat.simps [simp del]

definition py_str :: "int \<Rightarrow> string" where
  "py_str n = (if n < 0 then CHR ''-'' # str_nat (nat (- n)) else str_nat (nat n))"



text \<open>\<open>int(x)\<close> of a finite float truncates towards zero.\<close>

definition py_int :: "rat \<Rightarrow> int" where
  "py_int x = (if 0 \<le> x then \<lfloor>x\<rfloor> else \<lceil>x\<rceil>)"

text \<open>
  Floats are IEEE 754 doubles. A finite double is kept as the rational it is;
  \<open>to_double\<close> rounds a rational to the nearest double, ties to the even significand,
  with 53 bits of significand, exponents down to that of the subnormal numbers, and
  infinity from \<open>2 ^ 1024\<close> on. The sign of zero and of infinity is not kept: no result
  below depends on it.
\<close>

datatype pyfloat = Float_finite rat | Float_inf | Float_nan

function ilog2 :: "int \<Rightarrow> int" where
  "ilog2 n = (if n < 2 then 0 else 1 + ilog2 (n div 2))"
  by pat_completeness auto

termination
  by (relation "measure nat") auto

declare ilog2.simps [simp del]

definition pow2 :: "int \<Rightarrow> rat" where
  "pow2 e = (if 0 \<le> e then 2 ^ nat e else 1 / 2 ^ nat (- e))"

text \<open>
  The integer \<open>k\<close> with \<open>2 ^ k \<le> x < 2 ^ (k + 1)\<close>, for a positive \<open>x\<close>; \<open>ilog2\<close> is
  this integer for a positive integer.
\<close>

definition floor_log2 :: "rat \<Rightarrow> int" where
  "floor_log2 x = (if 1 \<le> x then ilog2 \<lfloor>x\<rfloor> else - (1 + ilog2 (\<lceil>1 / x\<rceil> - 1)))"

definition round_half_even :: "rat \<Rightarrow> int" where
  "round_half_even x =
     (let f = \<lfloor>x\<rfloor>; d = x - of_int f
      in if d < 1 / 2 then f
         else if 1 / 2 < d then f + 1
         else if even f then f else f + 1)"

definition to_double :: "rat \<Rightarrow> pyfloat" where
  "to_double x =
     (if x = 0 then Float_finite 0
      else
        (let a = \<bar>x\<bar>;
             e = max (floor_log2 a - 52) (- 1074);
             y = of_int (round_half_even (a / pow2 e)) * pow2 e
         in if 1024 \<le> floor_log2 y then Float_inf
            else Float_finite (if x < 0 then - y else y)))"

text \<open>\<open>x * y\<close> on floats, \<open>float(n)\<close> as the product of an integer and a float makes it,
  and \<open>int(x)\<close>.\<close>

definition float_mul :: "pyfloat \<Rightarrow> pyfloat \<Rightarrow> pyfloat" where
  "float_mul x y =
     (case (x, y) of
        (Float_finite a, Float_finite b) \<Rightarrow> to_double (a * b)
      | (Float_finite a, Float_inf) \<Rightarrow> (if a = 0 then Float_nan else Float_inf)
      | (Float_inf, Float_finite b) \<Rightarrow> (if b = 0 then Float_nan else Float_inf)
      | (Float_inf, Float_inf) \<Rightarrow> Float_inf
      | _ \<Rightarrow> Float_nan)"

definition float_of_int :: "int \<Rightarrow> exn + pyfloat" where
  "float_of_int n =
     (case to_double (of_int n) of
        Float_finite a \<Rightarrow> Inr (Float_finite a)
      | _ \<Rightarrow> Inl OverflowError)"

definition int_of_float :: "pyfloat \<Rightarrow> exn + int" where
  "int_of_float x =
     (case x of
        Float_finite a \<Rightarrow> Inr (py_int a)
      | Float_inf \<Rightarrow> Inl OverflowError
      | Float_nan \<Rightarrow> Inl ValueError)"


section \<open>The constant tables\<close>

subsection \<open>\<open>AppColors\<close>\<close>

definition AppColors_BACKGROUND_DISABLED :: string where
  "AppColors_BACKGROUND_DISABLED = ''#f4f7fc''"
definition AppColors_BORDER_DEFAULT :: string where
  "AppColors_BORDER_DEFAULT = ''#a0a0a0''"
definition AppColors_BORDER_FOCUS :: string where
  "AppColors_BORDER_FOCUS = ''#0078d7''"
definition AppColors_BORDER_PRESSED :: string where
  "AppColors_BORDER_PRESSED = ''#005a9e''"
definition AppColors_BORDER_DISABLED :: string where
  "AppColors_BORDER_DISABLED = ''#d0d0d0''"
definition AppColors_BORDER_LIGHT :: string where
  "AppColors_BORDER_LIGHT = ''#e3e3e3''"
definition AppColors_BUTTON_DEFAULT :: string where
  "AppColors_BUTTON_DEFAULT = ''#f0f0f0''"
definition AppColors_BUTTON_HOVER :: string where
  "AppColors_BUTTON_HOVER = ''#e5f1fb''"
definition AppColors_BUTTON_PRESSED :: string where
  "AppColors_BUTTON_PRESSED = ''#cce4f7''"
definition AppColors_TEXT_DEFAULT :: string where
  "AppColors_TEXT_DEFAULT = ''#000000''"
definition AppColors_TEXT_DISABLED :: string where
  "AppColors_TEXT_DISABLED = ''#6d6d6d''"
definition AppColors_TEXT_WHITE :: string where
  "AppColors_TEXT_WHITE = ''#ffffff''"
definition AppColors_ICON_DEFAULT :: string where
  "AppColors_ICON_DEFAULT = ''#000000''"
definition AppColors_ICON_HOVER :: string where
  "AppColors_ICON_HOVER = ''#0078d7''"
definition AppColors_ICON_PRESSED :: string where
  "AppColors_ICON_PRESSED = ''#005a9e''"
definition AppColors_ICON_DISABLED :: string where
  "AppColors_ICON_DISABLED = ''#6d6d6d''"
definition AppColors_ACCENT_BLUE :: string where
  "AppColors_ACCENT_BLUE = ''#0078d7''"
definition AppColors_HOT_TRACKING :: string where
  "AppColors_HOT_TRACKING = ''#0066cc''"
definition AppColors_SUCCESS_PRIMARY :: string where
  "AppColors_SUCCESS_PRIMARY = ''#107c10''"
definition AppColors_SUCCESS_BACKGROUND :: string where
  "AppColors_SUCCESS_BACKGROUND = ''#dff6dd''"
definition AppColors_SUCCESS_BORDER :: string where
  "AppColors_SUCCESS_BORDER = ''#0e5a0e''"
definition AppColors_WARNING_PRIMARY :: string where
  "AppColors_WARNING_PRIMARY = ''#ffb900''"
definition AppColors_WARNING_BACKGROUND :: string where
  "AppColors_WARNING_BACKGROUND = ''#fff4ce''"
definition AppColors_WARNING_BORDER :: string where
  "AppColors_WARNING_BORDER = ''#d39400''"
definition AppColors_ERROR_PRIMARY :: string where
  "AppColors_ERROR_PRIMARY = ''#e81123''"
definition AppColors_ERROR_BACKGROUND :: string where
  "AppColors_ERROR_BACKGROUND = ''#fde7e9''"
definition AppColors_ERROR_BORDER :: string where
  "AppColors_ERROR_BORDER = ''#b4161c''"
definition AppColors_INFO_PRIMARY :: string where
  "AppColors_INFO_PRIMARY = ''#0078d7''"
definition AppColors_INFO_BACKGROUND :: string where
  "AppColors_INFO_BACKGROUND = ''#e5f1fb''"
definition AppColors_INFO_BORDER :: string where
  "AppColors_INFO_BORDER = ''#005a9e''"

definition AppColors_BACKGROUND_LIGHT :: string where
  "AppColors_BACKGROUND_LIGHT = ''#f0f0f0''"
definition AppColors_BACKGROUND_MENU :: string where
  "AppColors_BACKGROUND_MENU = ''#f0f0f0''"
definition AppColors_BACKGROUND_TOOLTIP :: string where
  "AppColors_BACKGROUND_TOOLTIP = ''#ffffe1''"
definition AppColors_TEXT_MENU :: string where
  "AppColors_TEXT_MENU = ''#000000''"
definition AppColors_TEXT_TOOLTIP :: string where
  "AppColors_TEXT_TOOLTIP = ''#000000''"
definition AppColors_SELECTION_TEXT :: string where
  "AppColors_SELECTION_TEXT = ''#ffffff''"
definition AppColors_SELECTION_MENU :: string where
  "AppColors_SELECTION_MENU = ''#3399ff''"

lemmas AppColors_defs =
  AppColors_BACKGROUND_LIGHT_def AppColors_BACKGROUND_MENU_def AppColors_BACKGROUND_TOOLTIP_def
  AppColors_TEXT_MENU_def AppColors_TEXT_TOOLTIP_def AppColors_SELECTION_TEXT_def AppColors_SELECTION_MENU_def
  AppColors_BACKGROUND_DISABLED_def AppColors_BORDER_DEFAULT_def AppColors_BORDER_FOCUS_def
  AppColors_BORDER_PRESSED_def AppColors_BORDER_DISABLED_def AppColors_BORDER_LIGHT_def
  AppColors_BUTTON_DEFAULT_def AppColors_BUTTON_HOVER_def AppColors_BUTTON_PRESSED_def
  AppColors_TEXT_DEFAULT_def AppColors_TEXT_DISABLED_def AppColors_TEXT_WHITE_def
  AppColors_ICON_DEFAULT_def AppColors_ICON_HOVER_def AppColors_ICON_PRESSED_def
  AppColors_ICON_DISABLED_def AppColors_ACCENT_BLUE_def AppColors_HOT_TRACKING_def
  AppColors_SUCCESS_PRIMARY_def AppColors_SUCCESS_BACKGROUND_def AppColors_SUCCESS_BORDER_def
  AppColors_WARNING_PRIMARY_def AppColors_WARNING_BACKGROUND_def AppColors_WARNING_BORDER_def
  AppColors_ERROR_PRIMARY_def AppColors_ERROR_BACKGROUND_def AppColors_ERROR_BORDER_def
  AppColors_INFO_PRIMARY_def AppColors_INFO_BACKGROUND_def AppColors_INFO_BORDER_def

subsection \<open>\<open>AppFonts\<close>\<close>

definition AppFonts_DEFAULT_FAMILY :: string where
  "AppFonts_DEFAULT_FAMILY = ''Segoe UI''"
definition AppFonts_DEFAULT_SIZE :: string where
  "AppFonts_DEFAULT_SIZE = ''9pt''"
definition AppFonts_SMALL_SIZE :: string where
  "AppFonts_SMALL_SIZE = ''8pt''"

definition AppFonts_ITALIC_STYLE :: string where
  "AppFonts_ITALIC_STYLE = ''italic''"

lemmas AppFonts_defs =
  AppFonts_DEFAULT_FAMILY_def AppFonts_DEFAULT_SIZE_def AppFonts_SMALL_SIZE_def
  AppFonts_ITALIC_STYLE_def

subsection \<open>\<open>AppDimensions\<close>\<close>

definition AppDimensions_BUTTON_WIDTH_STANDARD :: int where
  "AppDimensions_BUTTON_WIDTH_STANDARD = 75"
definition AppDimensions_BUTTON_HEIGHT_STANDARD :: int where
  "AppDimensions_BUTTON_HEIGHT_STANDARD = 23"
definition AppDimensions_BUTTON_HEIGHT_SMALL :: int where
  "AppDimensions_BUTTON_HEIGHT_SMALL = 21"
definition AppDimensions_BUTTON_HEIGHT_LARGE :: int where
  "AppDimensions_BUTTON_HEIGHT_LARGE = 28"
definition AppDimensions_ICON_SIZE_SMALL :: int where
  "AppDimensions_ICON_SIZE_SMALL = 16"
definition AppDimensions_ICON_SIZE_MEDIUM :: int where
  "AppDimensions_ICON_SIZE_MEDIUM = 20"
definition AppDimensions_ICON_SIZE_LARGE :: int where
  "AppDimensions_ICON_SIZE_LARGE = 24"
definition AppDimensions_ICON_SIZE_XLARGE :: int where
  "AppDimensions_ICON_SIZE_XLARGE = 32"
definition AppDimensions_PADDING_SMALL :: string where
  "AppDimensions_PADDING_SMALL = ''3px''"
definition AppDimensions_PADDING_MEDIUM :: string where
  "AppDimensions_PADDING_MEDIUM = ''5px''"
definition AppDimensions_PADDING_BUTTON_STANDARD :: string where
  "AppDimensions_PADDING_BUTTON_STANDARD = ''3px 8px''"
definition AppDimensions_PADDING_BUTTON_LARGE :: string where
  "AppDimensions_PADDING_BUTTON_LARGE = ''5px 12px''"
definition AppDimensions_PADDING_BUTTON_COMPACT :: string where
  "AppDimensions_PADDING_BUTTON_COMPACT = ''2px 6px''"
definition AppDimensions_HEIGHT_SEPARATOR :: int where
  "AppDimensions_HEIGHT_SEPARATOR = 1"
definition AppDimensions_BORDER_WIDTH_STANDARD :: int where
  "AppDimensions_BORDER_WIDTH_STANDARD = 1"
definition AppDimensions_BORDER_WIDTH_THICK :: int where
  "AppDimensions_BORDER_WIDTH_THICK = 2"
definition AppDimensions_BORDER_RADIUS_STANDARD :: int where
  "AppDimensions_BORDER_RADIUS_STANDARD = 0"
definition AppDimensions_BORDER_RADIUS_MODERN :: int where
  "AppDimensions_BORDER_RADIUS_MODERN = 2"

definition AppDimensions_SPACING_SMALL :: int where
  "AppDimensions_SPACING_SMALL = 4"

lemmas AppDimensions_defs =
  AppDimensions_BUTTON_WIDTH_STANDARD_def AppDimensions_BUTTON_HEIGHT_STANDARD_def
  AppDimensions_BUTTON_HEIGHT_SMALL_def AppDimensions_BUTTON_HEIGHT_LARGE_def
  AppDimensions_ICON_SIZE_SMALL_def AppDimensions_ICON_SIZE_MEDIUM_def
  AppDimensions_ICON_SIZE_LARGE_def AppDimensions_ICON_SIZE_XLARGE_def
  AppDimensions_PADDING_SMALL_def AppDimensions_PADDING_MEDIUM_def
  AppDimensions_PADDING_BUTTON_STANDARD_def AppDimensions_PADDING_BUTTON_LARGE_def
  AppDimensions_PADDING_BUTTON_COMPACT_def AppDimensions_HEIGHT_SEPARATOR_def
  AppDimensions_BORDER_WIDTH_STANDARD_def AppDimensions_BORDER_WIDTH_THICK_def
  AppDimensions_BORDER_RADIUS_STANDARD_def AppDimensions_BORDER_RADIUS_MODERN_def
  AppDimensions_SPACING_SMALL_def


section \<open>\<open>ThemeManager.get_semantic_color\<close>\<close>

definition color_map :: "string \<rightharpoonup> (string \<rightharpoonup> string)" where
  "color_map = map_of
     [(''success'', map_of [(''primary'', AppColors_SUCCESS_PRIMARY),
                            (''background'', AppColors_SUCCESS_BACKGROUND),
                            (''border'', AppColors_SUCCESS_BORDER)]),
      (''warning'', map_of [(''primary'', AppColors_WARNING_PRIMARY),
                            (''background'', AppColors_WARNING_BACKGROUND),
                            (''border'', AppColors_WARNING_BORDER)]),
      (''error'', map_of [(''primary'', AppColors_ERROR_PRIMARY),
                          (''background'', AppColors_ERROR_BACKGROUND),
                          (''border'', AppColors_ERROR_BORDER)]),
      (''info'', map_of [(''primary'', AppColors_INFO_PRIMARY),
                         (''background'', AppColors_INFO_BACKGROUND),
                         (''border'', AppColors_INFO_BORDER)])]"

text \<open>
  \<open>color_map.get(semantic_type, color_map["info"]).get(element, AppColors.INFO_PRIMARY)\<close>:
  the default of the outer lookup is a subscript, evaluated before the lookup and the only
  place that could raise.
\<close>

definition get_semantic_color :: "string \<Rightarrow> string \<Rightarrow> exn + string" where
  "get_semantic_color semantic_type element =
     (case subscript color_map ''info'' of
        Inl e \<Rightarrow> Inl e
      | Inr info \<Rightarrow>
          Inr (dict_get (dict_get color_map semantic_type info) element AppColors_INFO_PRIMARY))"


section \<open>\<open>AppStyles\<close>: the style sheets\<close>

text \<open>
  A style function returns the text of a Qt style sheet, built by an f-string. The text is
  kept here as what it spells: the sequence of its rule blocks, each a selector (the
  widget class and the pseudo-states after it) and the declarations between its braces,
  in the order of the text. \<open>base_style += ...\<close> appends blocks. Layout (spaces, line
  breaks) is not kept.
\<close>

type_synonym css_declaration = "string \<times> string"
type_synonym css_selector = "string \<times> string list"
type_synonym css_rule = "css_selector \<times> css_declaration list"
type_synonym stylesheet = "css_rule list"

text \<open>The local \<open>base_style\<close> of \<open>AppStyles.button\<close>, before the variant is looked at.\<close>

definition button_base_style :: stylesheet where
  "button_base_style =
     [((''QPushButton'', []),
       [(''background-color'', AppColors_BUTTON_DEFAULT),
        (''color'', AppColors_TEXT_DEFAULT),
        (''padding'', AppDimensions_PADDING_BUTTON_STANDARD),
        (''border'', py_str AppDimensions_BORDER_WIDTH_STANDARD @ ''px solid '' @ AppColors_BORDER_DEFAULT),
        (''font-family'', AppFonts_DEFAULT_FAMILY),
        (''font-size'', AppFonts_DEFAULT_SIZE),
        (''min-width'', py_str AppDimensions_BUTTON_WIDTH_STANDARD @ ''px''),
        (''min-height'', py_str AppDimensions_BUTTON_HEIGHT_STANDARD @ ''px''),
        (''border-radius'', py_str AppDimensions_BORDER_RADIUS_STANDARD @ ''px'')]),
      ((''QPushButton'', [''hover'']),
       [(''background-color'', AppColors_BUTTON_HOVER),
        (''border'', py_str AppDimensions_BORDER_WIDTH_STANDARD @ ''px solid '' @ AppColors_BORDER_FOCUS)]),
      ((''QPushButton'', [''pressed'']),
       [(''background-color'', AppColors_BUTTON_PRESSED),
        (''border'', py_str AppDimensions_BORDER_WIDTH_STANDARD @ ''px solid '' @ AppColors_BORDER_PRESSED)]),
      ((''QPushButton'', [''focus'']),
       [(''border'', py_str AppDimensions_BORDER_WIDTH_THICK @ ''px solid '' @ AppColors_BORDER_FOCUS),
        (''outline'', ''none'')]),
      ((''QPushButton'', [''disabled'']),
       [(''background-color'', AppColors_BACKGROUND_DISABLED),
        (''color'', AppColors_TEXT_DISABLED),
        (''border'', py_str AppDimensions_BORDER_WIDTH_STANDARD @ ''px solid '' @ AppColors_BORDER_DISABLED)])]"

definition button :: "string \<Rightarrow> stylesheet" where
  "button style_variant =
     (if style_variant = ''primary'' then
        button_base_style @
        [((''QPushButton'', []),
          [(''background-color'', AppColors_ACCENT_BLUE),
           (''color'', AppColors_TEXT_WHITE),
           (''border'', py_str AppDimensions_BORDER_WIDTH_STANDARD @ ''px solid '' @ AppColors_ACCENT_BLUE)]),
         ((''QPushButton'', [''hover'']),
          [(''background-color'', AppColors_HOT_TRACKING),
           (''border'', py_str AppDimensions_BORDER_WIDTH_STANDARD @ ''px solid '' @ AppColors_HOT_TRACKING)]),
         ((''QPushButton'', [''pressed'']),
          [(''background-color'', AppColors_BORDER_PRESSED),
           (''border'', py_str AppDimensions_BORDER_WIDTH_STANDARD @ ''px solid '' @ AppColors_BORDER_PRESSED)])]
      else if style_variant = ''success'' then
        button_base_style @
        [((''QPushButton'', []),
          [(''background-color'', AppColors_SUCCESS_PRIMARY),
           (''color'', AppColors_TEXT_WHITE),
           (''border'', py_str AppDimensions_BORDER_WIDTH_STANDARD @ ''px solid '' @ AppColors_SUCCESS_BORDER)]),
         ((''QPushButton'', [''hover'']),
          [(''background-color'', AppColors_SUCCESS_BORDER),
           (''border'', py_str AppDimensions_BORDER_WIDTH_STANDARD @ ''px solid '' @ AppColors_SUCCESS_BORDER)])]
      else if style_variant = ''danger'' then
        button_base_style @
        [((''QPushButton'', []),
          [(''background-color'', AppColors_ERROR_PRIMARY),
           (''color'', AppColors_TEXT_WHITE),
           (''border'', py_str AppDimensions_BORDER_WIDTH_STANDARD @ ''px solid '' @ AppColors_ERROR_BORDER)]),
         ((''QPushButton'', [''hover'']),
          [(''background-color'', AppColors_ERROR_BORDER),
           (''border'', py_str AppDimensions_BORDER_WIDTH_STANDARD @ ''px solid '' @ AppColors_ERROR_BORDER)])]
      else button_base_style)"

definition button_large :: stylesheet where
  "button_large =
     [((''QPushButton'', []),
       [(''background-color'', AppColors_BUTTON_DEFAULT),
        (''color'', AppColors_TEXT_DEFAULT),
        (''padding'', AppDimensions_PADDING_BUTTON_LARGE),
        (''border'', py_str AppDimensions_BORDER_WIDTH_STANDARD @ ''px solid '' @ AppColors_BORDER_DEFAULT),
        (''font-family'', AppFonts_DEFAULT_FAMILY),
        (''font-size'', AppFonts_DEFAULT_SIZE),
        (''min-width'', py_str (AppDimensions_BUTTON_WIDTH_STANDARD + 20) @ ''px''),
        (''min-height'', py_str AppDimensions_BUTTON_HEIGHT_LARGE @ ''px''),
        (''border-radius'', py_str AppDimensions_BORDER_RADIUS_STANDARD @ ''px'')]),
      ((''QPushButton'', [''hover'']),
       [(''background-color'', AppColors_BUTTON_HOVER),
        (''border'', py_str AppDimensions_BORDER_WIDTH_STANDARD @ ''px solid '' @ AppColors_BORDER_FOCUS)]),
      ((''QPushButton'', [''pressed'']),
       [(''background-color'', AppColors_BUTTON_PRESSED),
        (''border'', py_str AppDimensions_BORDER_WIDTH_STANDARD @ ''px solid '' @ AppColors_BORDER_PRESSED)]),
      ((''QPushButton'', [''focus'']),
       [(''border'', py_str AppDimensions_BORDER_WIDTH_THICK @ ''px solid '' @ AppColors_BORDER_FOCUS),
        (''outline'', ''none'')]),
      ((''QPushButton'', [''disabled'']),
       [(''background-color'', AppColors_BACKGROUND_DISABLED),
        (''color'', AppColors_TEXT_DISABLED),
        (''border'', py_str AppDimensions_BORDER_WIDTH_STANDARD @ ''px solid '' @ AppColors_BORDER_DISABLED)])]"

definition button_compact :: stylesheet where
  "button_compact =
     [((''QPushButton'', []),
       [(''background-color'', AppColors_BUTTON_DEFAULT),
        (''color'', AppColors_TEXT_DEFAULT),
        (''padding'', AppDimensions_PADDING_BUTTON_COMPACT),
        (''font-size'', AppFonts_SMALL_SIZE),
        (''min-height'', py_str AppDimensions_BUTTON_HEIGHT_SMALL @ ''px''),
        (''border-radius'', py_str AppDimensions_BORDER_RADIUS_STANDARD @ ''px'')]),
      ((''QPushButton'', [''hover'']),
       [(''background-color'', AppColors_BUTTON_HOVER),
        (''border'', py_str AppDimensions_BORDER_WIDTH_STANDARD @ ''px solid '' @ AppColors_BORDER_FOCUS)]),
      ((''QPushButton'', [''pressed'']),
       [(''background-color'', AppColors_BUTTON_PRESSED),
        (''border'', py_str AppDimensions_BORDER_WIDTH_STANDARD @ ''px solid '' @ AppColors_BORDER_PRESSED)]),
      ((''QPushButton'', [''focus'']),
       [(''border'', py_str AppDimensions_BORDER_WIDTH_THICK @ ''px solid '' @ AppColors_BORDER_FOCUS),
        (''outline'', ''none'')]),
      ((''QPushButton'', [''disabled'']),
       [(''background-color'', AppColors_BACKGROUND_DISABLED),
        (''color'', AppColors_TEXT_DISABLED),
        (''border'', py_str AppDimensions_BORDER_WIDTH_STANDARD @ ''px solid '' @ AppColors_BORDER_DISABLED)])]"

definition icon_button :: stylesheet where
  "icon_button =
     [((''QPushButton'', []),
       [(''background-color'', ''transparent''),
        (''border'', py_str AppDimensions_BORDER_WIDTH_STANDARD @ ''px solid transparent''),
        (''padding'', AppDimensions_PADDING_SMALL),
        (''color'', AppColors_TEXT_DEFAULT),
        (''min-width'', py_str (AppDimensions_ICON_SIZE_MEDIUM + 8) @ ''px''),
        (''min-height'', py_str (AppDimensions_ICON_SIZE_MEDIUM + 8) @ ''px''),
        (''border-radius'', py_str AppDimensions_BORDER_RADIUS_MODERN @ ''px'')]),
      ((''QPushButton'', [''hover'']),
       [(''background-color'', AppColors_INFO_BACKGROUND),
        (''border'', py_str AppDimensions_BORDER_WIDTH_STANDARD @ ''px solid '' @ AppColors_BORDER_LIGHT)]),
      ((''QPushButton'', [''pressed'']),
       [(''background-color'', AppColors_BUTTON_PRESSED),
        (''border'', py_str AppDimensions_BORDER_WIDTH_STANDARD @ ''px solid '' @ AppColors_BORDER_FOCUS)]),
      ((''QPushButton'', [''focus'']),
       [(''border'', py_str AppDimensions_BORDER_WIDTH_STANDARD @ ''px solid '' @ AppColors_BORDER_FOCUS),
        (''outline'', ''none'')]),
      ((''QPushButton'', [''disabled'']),
       [(''color'', AppColors_ICON_DISABLED),
        (''background-color'', ''transparent''),
        (''border'', py_str AppDimensions_BORDER_WIDTH_STANDARD @ ''px solid transparent'')])]"

text \<open>
  \<open>AppStyles.notification\<close>: the triple is looked up with
  \<open>type_colors.get(notification_type, type_colors["info"])\<close>.
\<close>

definition type_colors :: "string \<rightharpoonup> string \<times> string \<times> string" where
  "type_colors = map_of
     [(''success'', (AppColors_SUCCESS_BACKGROUND, AppColors_SUCCESS_BORDER, AppColors_SUCCESS_PRIMARY)),
      (''warning'', (AppColors_WARNING_BACKGROUND, AppColors_WARNING_BORDER, AppColors_WARNING_PRIMARY)),
      (''error'', (AppColors_ERROR_BACKGROUND, AppColors_ERROR_BORDER, AppColors_ERROR_PRIMARY)),
      (''info'', (AppColors_INFO_BACKGROUND, AppColors_INFO_BORDER, AppColors_INFO_PRIMARY))]"

definition notification :: "string \<Rightarrow> exn + stylesheet" where
  "notification notification_type =
     (case subscript type_colors ''info'' of
        Inl e \<Rightarrow> Inl e
      | Inr info \<Rightarrow>
          (case dict_get type_colors notification_type info of
             (bg_color, border_color, text_color) \<Rightarrow>
               Inr [((''QLabel'', []),
                     [(''background-color'', bg_color),
                      (''color'', text_color),
                      (''border'', py_str AppDimensions_BORDER_WIDTH_STANDARD @ ''px solid '' @ border_color),
                      (''border-radius'', py_str AppDimensions_BORDER_RADIUS_MODERN @ ''px''),
                      (''padding'', AppDimensions_PADDING_MEDIUM),
                      (''font-family'', AppFonts_DEFAULT_FAMILY),
                      (''font-size'', AppFonts_DEFAULT_SIZE)])]))"

definition separator :: "string \<Rightarrow> stylesheet" where
  "separator orientation =
     (if orientation = ''horizontal'' then
        [((''QFrame'', []),
          [(''color'', AppColors_BORDER_LIGHT),
           (''background-color'', AppColors_BORDER_LIGHT),
           (''max-height'', py_str AppDimensions_HEIGHT_SEPARATOR @ ''px'')])]
      else
        [((''QFrame'', []),
          [(''color'', AppColors_BORDER_DEFAULT),
           (''background-color'', AppColors_BORDER_DEFAULT),
           (''max-width'', py_str AppDimensions_BORDER_WIDTH_STANDARD @ ''px''),
           (''margin'', AppDimensions_PADDING_SMALL @ '' '' @ AppDimensions_PADDING_MEDIUM)])])"

text \<open>
  \<open>AppStyles.port_type_indicator\<close>: the three colours are read with
  \<open>ThemeManager.get_semantic_color\<close>, in the order background, border, primary.
\<close>

definition port_type_indicator :: "string \<Rightarrow> exn + stylesheet" where
  "port_type_indicator style_type =
     (case get_semantic_color style_type ''background'' of
        Inl e \<Rightarrow> Inl e
      | Inr bg_color \<Rightarrow>
          (case get_semantic_color style_type ''border'' of
             Inl e \<Rightarrow> Inl e
           | Inr border_color \<Rightarrow>
               (case get_semantic_color style_type ''primary'' of
                  Inl e \<Rightarrow> Inl e
                | Inr text_color \<Rightarrow>
                    Inr [((''QLabel'', []),
                          [(''color'', text_color),
                           (''font-style'', AppFonts_ITALIC_STYLE),
                           (''font-family'', AppFonts_DEFAULT_FAMILY),
                           (''font-size'', AppFonts_SMALL_SIZE),
                           (''padding'',
                            AppDimensions_PADDING_SMALL @ '' '' @ AppDimensions_PADDING_MEDIUM),
                           (''background-color'', bg_color),
                           (''border'',
                            py_str AppDimensions_BORDER_WIDTH_STANDARD @ ''px solid ''
                              @ border_color),
                           (''border-radius'',
                            py_str AppDimensions_BORDER_RADIUS_MODERN @ ''px''),
                           (''margin-top'', py_str AppDimensions_SPACING_SMALL @ ''px'')])])))"


section \<open>The toolkit's reading of a style sheet\<close>





text \<open>
  Pseudo-states, as the toolkit derives them from the state of a button: \<open>:enabled\<close> or
  \<open>:disabled\<close> by its enabled flag; \<open>:hover\<close> if it is enabled and under the pointer;
  \<open>:pressed\<close> if it is down and \<open>:focus\<close> if it has the focus, whatever the enabled
  flag. A button that is not enabled gets no event of the pointer, but \<open>setDown\<close> puts
  it down all the same.
\<close>

record interaction =
  under_mouse :: bool
  is_down :: bool
  has_focus :: bool

definition pseudo_states :: "bool \<Rightarrow> interaction \<Rightarrow> string list" where
  "pseudo_states enabled i =
     (if enabled then ''enabled'' # (if under_mouse i then [''hover''] else [])
      else [''disabled'']) @
     (if is_down i then [''pressed''] else []) @
     (if has_focus i then [''focus''] else [])"


section \<open>What the code runs in\<close>

text \<open>
  The functions of \<open>IconManager\<close> and the factory of icon buttons call built-ins of
  Python, the toolkit, and the class \<open>AppIcons\<close>, which is imported from a module that is
  not part of the sources at hand. What these answer is not fixed by \<open>theme.py\<close>; it is
  a parameter of the model, the record \<open>runtime\<close>, and the statements below hold for
  every such record.

  \<^item> \<open>rt_display\<close>: what \<open>QApplication.instance()\<close> and
    \<open>QApplication.primaryScreen()\<close> answer: no application, an application without a
    screen, or a screen with its \<open>devicePixelRatio()\<close>, a double.
  \<^item> \<open>rt_format template c\<close>: \<open>template.format(color=c)\<close>, the text or the exception
    raised.
  \<^item> \<open>rt_upper\<close>: \<open>str.upper\<close>.
  \<^item> \<open>rt_encode\<close>: \<open>str.encode('utf-8')\<close>, the bytes or the exception raised
    (\<open>UnicodeEncodeError\<close> on a lone surrogate).
  \<^item> \<open>rt_svg_load\<close>: what \<open>QSvgRenderer.load\<close> returns on the bytes, that is whether
    the toolkit can read them as an SVG image.
  \<^item> \<open>rt_pixmap_alloc\<close>: whether the toolkit gets the memory of a pixmap of a size
    whose sides are positive.
  \<^item> \<open>rt_AppIcons\<close>: the attributes of the class \<open>AppIcons\<close>, by name.
\<close>

datatype qsize = QSize (width: int) (height: int)

datatype display = NoApplication | NoScreen | Screen rat

record runtime =
  rt_display :: display
  rt_format :: "string \<Rightarrow> string \<Rightarrow> exn + string"
  rt_upper :: "string \<Rightarrow> string"
  rt_encode :: "string \<Rightarrow> exn + string"
  rt_svg_load :: "string \<Rightarrow> bool"
  rt_pixmap_alloc :: "qsize \<Rightarrow> bool"
  rt_AppIcons :: "string \<rightharpoonup> string"

text \<open>
  A call returns a value, raises an exception, or does not come back because the toolkit
  ends the process: the toolkit builds a widget or a pixmap only in an application that
  has a screen, and aborts otherwise.
\<close>

datatype 'a result = Returns 'a | Raises exn | Aborts

definition then_do :: "'a result \<Rightarrow> ('a \<Rightarrow> 'b result) \<Rightarrow> 'b result" where
  "then_do r f = (case r of Returns x \<Rightarrow> f x | Raises e \<Rightarrow> Raises e | Aborts \<Rightarrow> Aborts)"

definition of_sum :: "exn + 'a \<Rightarrow> 'a result" where
  "of_sum r = (case r of Inl e \<Rightarrow> Raises e | Inr x \<Rightarrow> Returns x)"

definition has_screen :: "display \<Rightarrow> bool" where
  "has_screen disp = (case disp of Screen dpi_ratio \<Rightarrow> True | _ \<Rightarrow> False)"


section \<open>\<open>IconManager\<close>\<close>

text \<open>
  \<open>get_scaled_size\<close>. The scale factor and the ratio of the screen are doubles, given
  here by a rational that stands for the double nearest to it. The product of the base
  size and the scale factor is a product of floats, and \<open>int\<close> cuts it towards zero.
  \<open>QSize(w, h)\<close> takes C integers and raises \<open>OverflowError\<close> on others.
\<close>

definition QSize_new :: "int \<Rightarrow> int \<Rightarrow> exn + qsize" where
  "QSize_new w h =
     (if - (2 ^ 31) \<le> w \<and> w < 2 ^ 31 \<and> - (2 ^ 31) \<le> h \<and> h < 2 ^ 31 then Inr (QSize w h)
      else Inl OverflowError)"

definition get_scaled_size :: "display \<Rightarrow> int \<Rightarrow> rat \<Rightarrow> exn + qsize" where
  "get_scaled_size disp base_size scale_factor =
     (let scale_factor = (case disp of
                            NoApplication \<Rightarrow> to_double scale_factor
                          | NoScreen \<Rightarrow> to_double scale_factor
                          | Screen dpi_ratio \<Rightarrow>
                              float_mul (to_double scale_factor) (to_double dpi_ratio))
      in case float_of_int base_size of
           Inl e \<Rightarrow> Inl e
         | Inr base \<Rightarrow>
             (case int_of_float (float_mul base scale_factor) of
                Inl e \<Rightarrow> Inl e
              | Inr scaled_size \<Rightarrow> QSize_new scaled_size scaled_size))"

text \<open>
  A pixmap is null or has a size, a fill colour and, if a renderer that had loaded an
  image painted on it, the bytes of that image. \<open>QPixmap(size)\<close> is null if a side is
  not positive or the memory is not there; \<open>fill\<close> and painting do nothing on a null
  pixmap, and a renderer that has loaded nothing paints nothing.

  \<open>_svg_to_pixmap\<close> encodes the text, raising what the encoding raises, and hands the
  bytes to \<open>renderer.load\<close>, whose result the source does not look at.
\<close>

datatype qpixmap =
    NullPixmap
  | Pixmap (pixmap_size: qsize) (pixmap_fill: "int \<times> int \<times> int \<times> int")
      (pixmap_painted: "string option")

definition svg_to_pixmap :: "runtime \<Rightarrow> string \<Rightarrow> qsize \<Rightarrow> qpixmap result" where
  "svg_to_pixmap rt svg_data size' =
     (case rt_encode rt svg_data of
        Inl e \<Rightarrow> Raises e
      | Inr svg_bytes \<Rightarrow>
          (let loaded = rt_svg_load rt svg_bytes
           in if \<not> has_screen (rt_display rt) then Aborts
              else if 0 < width size' \<and> 0 < height size' \<and> rt_pixmap_alloc rt size' then
                Returns (Pixmap size' (0, 0, 0, 0) (if loaded then Some svg_bytes else None))
              else Returns NullPixmap))"

text \<open>
  A \<open>QIcon\<close> is the pixmaps added to it, each under its mode and state.
  \<open>QIcon.addPixmap\<close> does nothing with a null pixmap.
\<close>

datatype icon_mode = Normal | Active | Selected | Disabled
datatype icon_state = Off | On

type_synonym qicon = "(qpixmap \<times> icon_mode \<times> icon_state) list"

definition addPixmap :: "qicon \<Rightarrow> qpixmap \<Rightarrow> icon_mode \<Rightarrow> icon_state \<Rightarrow> qicon" where
  "addPixmap icon pixmap mode state =
     (if pixmap = NullPixmap then icon else icon @ [(pixmap, mode, state)])"

text \<open>
  \<open>create_svg_icon\<close>, statement by statement. An exception or an abort leaves the
  function at once, and the icon built so far is dropped with it.
\<close>

definition create_svg_icon :: "runtime \<Rightarrow> string \<Rightarrow> string \<Rightarrow> qsize \<Rightarrow> qicon result" where
  "create_svg_icon rt svg_template color size' =
     then_do (of_sum (rt_format rt svg_template color)) (\<lambda>svg_data.
     let icon = [] in
     then_do (svg_to_pixmap rt svg_data size') (\<lambda>normal_pixmap.
     let icon = addPixmap icon normal_pixmap Normal Off in
     then_do (of_sum (rt_format rt svg_template AppColors_ICON_HOVER)) (\<lambda>hover_svg.
     then_do (svg_to_pixmap rt hover_svg size') (\<lambda>hover_pixmap.
     let icon = addPixmap icon hover_pixmap Active Off in
     then_do (of_sum (rt_format rt svg_template AppColors_ICON_PRESSED)) (\<lambda>pressed_svg.
     then_do (svg_to_pixmap rt pressed_svg size') (\<lambda>pressed_pixmap.
     let icon = addPixmap icon pressed_pixmap Selected Off in
     then_do (of_sum (rt_format rt svg_template AppColors_ICON_DISABLED)) (\<lambda>disabled_svg.
     then_do (svg_to_pixmap rt disabled_svg size') (\<lambda>disabled_pixmap.
     let icon = addPixmap icon disabled_pixmap Disabled Off in
     Returns icon))))))))"


section \<open>\<open>ThemeManager\<close>: the widget factory\<close>

text \<open>
  A \<open>QPushButton\<close>, as far as the factory sets it: what the constructor and the setters
  leave in it. The callbacks connected to \<open>clicked\<close> are of a type \<open>'cb\<close> of their own.
\<close>

record 'cb qpushbutton =
  btn_text :: string
  btn_icon :: qicon
  btn_icon_size :: "qsize option"
  btn_style_sheet :: stylesheet
  btn_tool_tip :: string
  btn_enabled :: bool
  btn_clicked :: "'cb list"

definition QPushButton :: "string \<Rightarrow> 'cb qpushbutton" where
  "QPushButton label =
     \<lparr>btn_text = label, btn_icon = [], btn_icon_size = None, btn_style_sheet = [],
      btn_tool_tip = [], btn_enabled = True, btn_clicked = []\<rparr>"

text \<open>\<open>if callback:\<close> holds for every callable and fails for \<open>None\<close>.\<close>

definition create_button ::
  "string \<Rightarrow> 'cb option \<Rightarrow> string \<Rightarrow> string \<Rightarrow> bool \<Rightarrow> 'cb qpushbutton" where
  "create_button label callback style_type variant enabled =
     (let button0 = QPushButton label;
          button1 =
            (if style_type = ''large'' then button0\<lparr>btn_style_sheet := button_large\<rparr>
             else if style_type = ''compact'' then button0\<lparr>btn_style_sheet := button_compact\<rparr>
             else if style_type = ''icon'' then button0\<lparr>btn_style_sheet := icon_button\<rparr>
             else button0\<lparr>btn_style_sheet := button variant\<rparr>);
          button2 = button1\<lparr>btn_enabled := enabled\<rparr>
      in case callback of
           None \<Rightarrow> button2
         | Some cb \<Rightarrow> button2\<lparr>btn_clicked := btn_clicked button2 @ [cb]\<rparr>)"

text \<open>
  \<open>create_icon_button\<close>. \<open>QPushButton()\<close> comes first and aborts without an application
  on a screen; \<open>get_scaled_size\<close> comes before the template is looked up, so what it
  raises is raised for every icon name. \<open>getattr(AppIcons, icon_name.upper(), None)\<close> is
  a lookup in the attributes of the class, and \<open>if icon_template:\<close> holds for a template
  that is not empty.
\<close>

definition size_map :: "string \<rightharpoonup> int" where
  "size_map = map_of
     [(''small'', AppDimensions_ICON_SIZE_SMALL),
      (''medium'', AppDimensions_ICON_SIZE_MEDIUM),
      (''large'', AppDimensions_ICON_SIZE_LARGE),
      (''xlarge'', AppDimensions_ICON_SIZE_XLARGE)]"

definition create_icon_button ::
  "runtime \<Rightarrow> string \<Rightarrow> string \<Rightarrow> string \<Rightarrow> 'cb qpushbutton result" where
  "create_icon_button rt icon_name tooltip size' =
     (if \<not> has_screen (rt_display rt) then Aborts
      else
        (let button0 = QPushButton [];
             base_size = dict_get size_map size' AppDimensions_ICON_SIZE_MEDIUM
         in then_do (of_sum (get_scaled_size (rt_display rt) base_size 1)) (\<lambda>icon_size.
            let icon_template = rt_AppIcons rt (rt_upper rt icon_name) in
            then_do
              (case icon_template of
                 None \<Rightarrow> Returns button0
               | Some template \<Rightarrow>
                   if template = [] then Returns button0
                   else
                     then_do (create_svg_icon rt template AppColors_ICON_DEFAULT icon_size)
                       (\<lambda>icon. Returns (button0\<lparr>btn_icon := icon,
                                                  btn_icon_size := Some icon_size\<rparr>)))
              (\<lambda>button1.
                 let button2 = button1\<lparr>btn_style_sheet := icon_button\<rparr>
                 in Returns (if tooltip = [] then button2
                             else button2\<lparr>btn_tool_tip := tooltip\<rparr>)))))"


section \<open>An application for evaluation\<close>






section \<open>The process and the calls of the theming interface\<close>

text \<open>
  \<open>AppStyles.tooltip\<close> and the global style sheet of \<open>apply_global_stylesheet\<close>.
  The first is named \<open>AppStyles_tooltip\<close> here, \<open>tooltip\<close> being the parameter of
  \<open>create_icon_button\<close>. A selector with a sub-control (\<open>QMenuBar::item:selected\<close>)
  is kept as the subject \<open>QMenuBar::item\<close> and its pseudo-states; the comments of the
  text are not kept.
\<close>

definition AppStyles_tooltip :: stylesheet where
  "AppStyles_tooltip =
     [((''QToolTip'', []),
       [(''background-color'', AppColors_BACKGROUND_TOOLTIP),
        (''color'', AppColors_TEXT_TOOLTIP),
        (''border'',
         py_str AppDimensions_BORDER_WIDTH_STANDARD @ ''px solid '' @ AppColors_BORDER_DEFAULT),
        (''padding'', AppDimensions_PADDING_MEDIUM),
        (''font-family'', AppFonts_DEFAULT_FAMILY),
        (''font-size'', AppFonts_DEFAULT_SIZE),
        (''border-radius'', py_str AppDimensions_BORDER_RADIUS_MODERN @ ''px'')])]"

definition global_style :: stylesheet where
  "global_style =
     [((''QApplication'', []),
       [(''font-family'', AppFonts_DEFAULT_FAMILY),
        (''font-size'', AppFonts_DEFAULT_SIZE)])] @
     AppStyles_tooltip @
     [((''QMenuBar'', []),
       [(''background-color'', AppColors_BACKGROUND_MENU),
        (''color'', AppColors_TEXT_MENU),
        (''border-bottom'',
         py_str AppDimensions_BORDER_WIDTH_STANDARD @ ''px solid '' @ AppColors_BORDER_DEFAULT),
        (''font-family'', AppFonts_DEFAULT_FAMILY),
        (''font-size'', AppFonts_DEFAULT_SIZE)]),
      ((''QMenuBar::item'', []),
       [(''padding'', ''4px 8px''),
        (''background-color'', ''transparent''),
        (''margin'', ''0px'')]),
      ((''QMenuBar::item'', [''selected'']),
       [(''background-color'', AppColors_SELECTION_MENU),
        (''color'', AppColors_SELECTION_TEXT)]),
      ((''QMenuBar::item'', [''pressed'']),
       [(''background-color'', AppColors_BUTTON_PRESSED)]),
      ((''QMenu'', []),
       [(''background-color'', AppColors_BACKGROUND_MENU),
        (''color'', AppColors_TEXT_MENU),
        (''border'',
         py_str AppDimensions_BORDER_WIDTH_STANDARD @ ''px solid '' @ AppColors_BORDER_DEFAULT),
        (''font-family'', AppFonts_DEFAULT_FAMILY),
        (''font-size'', AppFonts_DEFAULT_SIZE),
        (''padding'', ''2px'')]),
      ((''QMenu::item'', []),
       [(''padding'', ''4px 16px''),
        (''margin'', ''1px'')]),
      ((''QMenu::item'', [''selected'']),
       [(''background-color'', AppColors_SELECTION_MENU),
        (''color'', AppColors_SELECTION_TEXT)]),
      ((''QMenu::separator'', []),
       [(''height'', ''1px''),
        (''background-color'', AppColors_BORDER_LIGHT),
        (''margin'', ''2px 4px'')]),
      ((''QStatusBar'', []),
       [(''background-color'', AppColors_BACKGROUND_LIGHT),
        (''color'', AppColors_TEXT_DEFAULT),
        (''border-top'',
         py_str AppDimensions_BORDER_WIDTH_STANDARD @ ''px solid '' @ AppColors_BORDER_DEFAULT),
        (''font-family'', AppFonts_DEFAULT_FAMILY),
        (''font-size'', AppFonts_DEFAULT_SIZE)]),
      ((''QStatusBar::item'', []),
       [(''border'', ''none'')])]"

text \<open>
  What of the process outlives a call and is within reach of \<open>theme.py\<close>: the display
  the application runs on, which \<open>get_scaled_size\<close> asks the toolkit for, and the style
  sheet of the application, which \<open>apply_global_stylesheet\<close> sets with
  \<open>app.setStyleSheet\<close>. The module has no variable of its own: its tables are class
  attributes that none of its functions assigns, and every function is a static method.
\<close>

record process =
  proc_display :: display
  proc_style_sheet :: stylesheet

definition apply_global_stylesheet :: "process \<Rightarrow> process" where
  "apply_global_stylesheet app = app\<lparr>proc_style_sheet := global_style\<rparr>"

text \<open>
  The style functions that were translated above, called with their argument, and the
  other calls a program can make before or between them. \<open>perform\<close> makes one call in a
  process and gives what it returns and the process after it; \<open>run\<close> makes the calls of
  a list in turn.
\<close>

datatype style_request =
    Button_style string
  | Button_large_style
  | Button_compact_style
  | Icon_button_style
  | Notification_style string
  | Separator_style string
  | Port_type_indicator_style string

datatype call =
    Resolve style_request
  | Get_semantic_color string string
  | Get_scaled_size int rat
  | Apply_global_stylesheet

datatype outcome =
    Style_value "exn + stylesheet"
  | Colour_value "exn + string"
  | Size_value "exn + qsize"
  | No_value

definition perform :: "call \<Rightarrow> process \<Rightarrow> outcome \<times> process" where
  "perform c p =
     (case c of
        Resolve (Button_style style_variant) \<Rightarrow> (Style_value (Inr (button style_variant)), p)
      | Resolve Button_large_style \<Rightarrow> (Style_value (Inr button_large), p)
      | Resolve Button_compact_style \<Rightarrow> (Style_value (Inr button_compact), p)
      | Resolve Icon_button_style \<Rightarrow> (Style_value (Inr icon_button), p)
      | Resolve (Notification_style notification_type) \<Rightarrow>
          (Style_value (notification notification_type), p)
      | Resolve (Separator_style orientation) \<Rightarrow> (Style_value (Inr (separator orientation)), p)
      | Resolve (Port_type_indicator_style style_type) \<Rightarrow>
          (Style_value (port_type_indicator style_type), p)
      | Get_semantic_color semantic_type element \<Rightarrow>
          (Colour_value (get_semantic_color semantic_type element), p)
      | Get_scaled_size base_size scale_factor \<Rightarrow>
          (Size_value (get_scaled_size (proc_display p) base_size scale_factor), p)
      | Apply_global_stylesheet \<Rightarrow> (No_value, apply_global_stylesheet p))"

fun run :: "call list \<Rightarrow> process \<Rightarrow> process" where
  "run [] p = p"
| "run (c # cs) p = run cs (snd (perform c p))"


section \<open>Semantic colours\<close>

lemma color_map_info:
  "subscript color_map ''info'' =
     Inr (map_of [(''primary'', AppColors_INFO_PRIMARY),
                  (''background'', AppColors_INFO_BACKGROUND),
                  (''border'', AppColors_INFO_BORDER)])"
  by (simp add: subscript_def color_map_def)

lemma color_map_unknown:
  "semantic_type \<notin> set [''success'', ''warning'', ''error'', ''info'']
     \<Longrightarrow> color_map semantic_type = None"
  by (simp add: color_map_def)

text \<open>
  C3, as the code has it. Semantic colour resolution returns a value for every category
  and element and never raises. An unrecognised category is resolved as \<open>info\<close>. An
  unrecognised element yields the fixed colour \<open>AppColors.INFO_PRIMARY\<close>, whatever the
  category: the primary colour of \<open>info\<close>, not that of the category asked for.
\<close>

theorem get_semantic_color_fallback:
  "(\<exists>v. get_semantic_color semantic_type element = Inr v) \<and>
   (semantic_type \<notin> set [''success'', ''warning'', ''error'', ''info'']
      \<longrightarrow> get_semantic_color semantic_type element = get_semantic_color ''info'' element) \<and>
   (element \<notin> set [''primary'', ''background'', ''border'']
      \<longrightarrow> get_semantic_color semantic_type element = Inr AppColors_INFO_PRIMARY)"
proof (intro conjI impI)
  show "\<exists>v. get_semantic_color semantic_type element = Inr v"
    by (simp add: get_semantic_color_def color_map_info)
next
  assume "semantic_type \<notin> set [''success'', ''warning'', ''error'', ''info'']"
  then have "color_map semantic_type = None"
    by (rule color_map_unknown)
  then have a: "dict_get color_map semantic_type d = d" for d
    by (simp add: dict_get_def)
  have b: "dict_get color_map ''info'' d = d"
    if "subscript color_map ''info'' = Inr d" for d
    using that by (simp add: dict_get_def subscript_def split: option.splits)
  obtain info where i: "subscript color_map ''info'' = Inr info"
    using color_map_info by blast
  show "get_semantic_color semantic_type element = get_semantic_color ''info'' element"
    by (simp add: get_semantic_color_def i a b [OF i])
next
  assume el: "element \<notin> set [''primary'', ''background'', ''border'']"
  have "dict_get d element AppColors_INFO_PRIMARY = AppColors_INFO_PRIMARY"
    if "d \<in> ran color_map" for d
    using that el by (auto simp: color_map_def dict_get_def ran_def split: if_splits)
  moreover have "dict_get color_map semantic_type info \<in> ran color_map"
    if "info \<in> ran color_map" for info
    using that by (auto simp: dict_get_def ran_def split: option.splits)
  moreover have "map_of [(''primary'', AppColors_INFO_PRIMARY),
                  (''background'', AppColors_INFO_BACKGROUND),
                  (''border'', AppColors_INFO_BORDER)] \<in> ran color_map"
    by (auto simp: ran_def color_map_def intro!: exI [of _ "''info''"])
  ultimately show "get_semantic_color semantic_type element = Inr AppColors_INFO_PRIMARY"
    by (simp add: get_semantic_color_def color_map_info)
qed

theorem get_semantic_color_fallback_witness:
  "get_semantic_color ''bogus'' ''border'' = get_semantic_color ''info'' ''border'' \<and>
   get_semantic_color ''warning'' ''shade'' = Inr AppColors_INFO_PRIMARY"
proof -
  have c: "''bogus'' \<notin> set [''success'', ''warning'', ''error'', ''info'']"
    by simp
  have e: "''shade'' \<notin> set [''primary'', ''background'', ''border'']"
    by simp
  from get_semantic_color_fallback [of "''bogus''" "''border''"] c
  have "get_semantic_color ''bogus'' ''border'' = get_semantic_color ''info'' ''border''"
    by blast
  moreover from get_semantic_color_fallback [of "''warning''" "''shade''"] e
  have "get_semantic_color ''warning'' ''shade'' = Inr AppColors_INFO_PRIMARY"
    by blast
  ultimately show ?thesis by simp
qed

text \<open>
  C3 as the specification words it fails: for the known category \<open>success\<close> an
  unrecognised element yields \<open>#0078d7\<close> (the primary colour of \<open>info\<close>), while the
  primary colour of \<open>success\<close> is \<open>#107c10\<close>.
\<close>

theorem get_semantic_color_element_counterexample:
  "get_semantic_color ''success'' ''bogus'' = Inr ''#0078d7'' \<and>
   get_semantic_color ''success'' ''primary'' = Inr ''#107c10'' \<and>
   get_semantic_color ''success'' ''bogus'' \<noteq> get_semantic_color ''success'' ''primary''"
  by code_simp


section \<open>Unknown variants\<close>

lemma get_semantic_color_total:
  "\<exists>v. get_semantic_color semantic_type element = Inr v"
  by (simp add: get_semantic_color_def color_map_info)

lemma get_semantic_color_unknown:
  assumes "semantic_type \<notin> set [''success'', ''warning'', ''error'', ''info'']"
  shows "get_semantic_color semantic_type element = get_semantic_color ''info'' element"
proof -
  have "color_map semantic_type = None"
    using assms by (rule color_map_unknown)
  then have a: "dict_get color_map semantic_type d = d" for d
    by (simp add: dict_get_def)
  have b: "dict_get color_map ''info'' d = d"
    if "subscript color_map ''info'' = Inr d" for d
    using that by (simp add: dict_get_def subscript_def split: option.splits)
  obtain info where i: "subscript color_map ''info'' = Inr info"
    using color_map_info by blast
  show ?thesis
    by (simp add: get_semantic_color_def i a b [OF i])
qed

lemma button_unknown:
  "style_variant \<notin> set [''primary'', ''success'', ''danger'']
     \<Longrightarrow> button style_variant = button_base_style"
  by (simp add: button_def)

lemma notification_total:
  "\<exists>sheet. notification notification_type = Inr sheet"
proof -
  obtain info where i: "subscript type_colors ''info'' = Inr info"
    by (simp add: subscript_def type_colors_def)
  show ?thesis
    by (simp add: notification_def i split: prod.splits)
qed

lemma notification_unknown:
  assumes "notification_type \<notin> set [''success'', ''warning'', ''error'', ''info'']"
  shows "notification notification_type = notification ''info''"
proof -
  have "type_colors notification_type = None"
    using assms by (simp add: type_colors_def)
  then have a: "dict_get type_colors notification_type d = d" for d
    by (simp add: dict_get_def)
  have b: "dict_get type_colors ''info'' d = d"
    if "subscript type_colors ''info'' = Inr d" for d
    using that by (simp add: dict_get_def subscript_def split: option.splits)
  obtain info where i: "subscript type_colors ''info'' = Inr info"
    by (simp add: subscript_def type_colors_def)
  show ?thesis
    by (simp add: notification_def i a b [OF i])
qed

lemma port_type_indicator_total:
  "\<exists>sheet. port_type_indicator style_type = Inr sheet"
proof -
  obtain bg where 1: "get_semantic_color style_type ''background'' = Inr bg"
    using get_semantic_color_total by blast
  obtain bd where 2: "get_semantic_color style_type ''border'' = Inr bd"
    using get_semantic_color_total by blast
  obtain fg where 3: "get_semantic_color style_type ''primary'' = Inr fg"
    using get_semantic_color_total by blast
  show ?thesis
    by (simp add: port_type_indicator_def 1 2 3)
qed

lemma separator_unknown:
  "orientation \<noteq> ''horizontal'' \<Longrightarrow> separator orientation = separator ''vertical''"
  by (simp add: separator_def)

lemma separator_vertical_horizontal:
  "separator ''vertical'' \<noteq> separator ''horizontal''"
  by (simp add: separator_def)

text \<open>
  C9, as the code has it. A variant that a style function does not recognise is never an
  error. \<open>button\<close> returns the sheet of its default variant, \<open>notification\<close> and
  \<open>port_type_indicator\<close> return that of \<open>info\<close>, their default. \<open>separator\<close>, whose
  default orientation is \<open>horizontal\<close>, returns for every other orientation the sheet of
  \<open>vertical\<close>, which is not the sheet of its default.
\<close>

theorem unknown_variant_fallback:
  "(style_variant \<notin> set [''default'', ''primary'', ''success'', ''danger'']
      \<longrightarrow> button style_variant = button ''default'') \<and>
   (notification_type \<notin> set [''success'', ''warning'', ''error'', ''info'']
      \<longrightarrow> (\<exists>sheet. notification notification_type = Inr sheet) \<and>
          notification notification_type = notification ''info'') \<and>
   (style_type \<notin> set [''success'', ''warning'', ''error'', ''info'']
      \<longrightarrow> (\<exists>sheet. port_type_indicator style_type = Inr sheet) \<and>
          port_type_indicator style_type = port_type_indicator ''info'') \<and>
   (orientation \<notin> set [''horizontal'', ''vertical'']
      \<longrightarrow> separator orientation = separator ''vertical'' \<and>
          separator orientation \<noteq> separator ''horizontal'')"
proof (intro conjI impI)
  assume "style_variant \<notin> set [''default'', ''primary'', ''success'', ''danger'']"
  then have "style_variant \<notin> set [''primary'', ''success'', ''danger'']"
    by simp
  then have "button style_variant = button_base_style"
    by (rule button_unknown)
  moreover have "button ''default'' = button_base_style"
    by (rule button_unknown) simp
  ultimately show "button style_variant = button ''default''"
    by simp
next
  show "\<exists>sheet. notification notification_type = Inr sheet"
    by (rule notification_total)
next
  assume "notification_type \<notin> set [''success'', ''warning'', ''error'', ''info'']"
  then show "notification notification_type = notification ''info''"
    by (rule notification_unknown)
next
  show "\<exists>sheet. port_type_indicator style_type = Inr sheet"
    by (rule port_type_indicator_total)
next
  assume "style_type \<notin> set [''success'', ''warning'', ''error'', ''info'']"
  then have "get_semantic_color style_type element = get_semantic_color ''info'' element"
    for element
    by (rule get_semantic_color_unknown)
  then show "port_type_indicator style_type = port_type_indicator ''info''"
    by (simp only: port_type_indicator_def)
next
  assume "orientation \<notin> set [''horizontal'', ''vertical'']"
  then have "orientation \<noteq> ''horizontal''"
    by simp
  then show "separator orientation = separator ''vertical''"
    by (rule separator_unknown)
next
  assume "orientation \<notin> set [''horizontal'', ''vertical'']"
  then have "orientation \<noteq> ''horizontal''"
    by simp
  then have "separator orientation = separator ''vertical''"
    by (rule separator_unknown)
  then show "separator orientation \<noteq> separator ''horizontal''"
    using separator_vertical_horizontal by simp
qed

theorem unknown_variant_fallback_witness:
  "button ''bogus'' = button ''default'' \<and>
   (\<exists>sheet. notification ''bogus'' = Inr sheet) \<and>
   notification ''bogus'' = notification ''info'' \<and>
   (\<exists>sheet. port_type_indicator ''bogus'' = Inr sheet) \<and>
   port_type_indicator ''bogus'' = port_type_indicator ''info'' \<and>
   separator ''bogus'' = separator ''vertical'' \<and>
   separator ''bogus'' \<noteq> separator ''horizontal''"
proof -
  have 1: "''bogus'' \<notin> set [''default'', ''primary'', ''success'', ''danger'']"
    and 2: "''bogus'' \<notin> set [''success'', ''warning'', ''error'', ''info'']"
    and 3: "''bogus'' \<notin> set [''horizontal'', ''vertical'']"
    by simp_all
  from unknown_variant_fallback [of "''bogus''" "''bogus''" "''bogus''" "''bogus''"] 1 2 3
  show ?thesis by blast
qed

text \<open>
  C9 as the specification words it fails for the separator: an orientation that is
  neither \<open>horizontal\<close> nor \<open>vertical\<close> gets the vertical line, one pixel wide and in the
  darker border colour, and not the horizontal line of the default orientation.
\<close>

theorem separator_unknown_orientation_counterexample:
  "separator ''diagonal'' =
     [((''QFrame'', []),
       [(''color'', ''#a0a0a0''), (''background-color'', ''#a0a0a0''),
        (''max-width'', ''1px''), (''margin'', ''3px 5px'')])] \<and>
   separator ''horizontal'' =
     [((''QFrame'', []),
       [(''color'', ''#e3e3e3''), (''background-color'', ''#e3e3e3''),
        (''max-height'', ''1px'')])] \<and>
   separator ''diagonal'' \<noteq> separator ''horizontal''"
  by code_simp


section \<open>Buttons and their variants\<close>


lemma create_button_enabled:
  "btn_enabled (create_button label callback style_type variant enabled) = enabled"
  by (simp add: create_button_def Let_def split: option.splits)









section \<open>The icon renderer\<close>

lemma then_do_simps:
  "then_do (Returns x) f = f x"
  "then_do (Raises e) f = Raises e"
  "then_do Aborts f = Aborts"
  by (simp_all add: then_do_def)

lemma of_sum_simps:
  "of_sum (Inl e) = Raises e"
  "of_sum (Inr x) = Returns x"
  by (simp_all add: of_sum_def)























end
